theory Spec2Isabelle
  imports Complex_Main
begin

section \<open>Data model\<close>

text \<open>
  The player component \<open>VideoCanvas\<close> receives a list of scenes, a map from scene id to
  generated asset, and an optional background-music buffer. JavaScript numbers (seconds,
  milliseconds, pixels) are modelled as real numbers: rounding of IEEE doubles and the
  value NaN are outside the model.
\<close>

datatype transition = Fade | Slide | Zoom | Blur | Dissolve

text \<open>
  Modelled from the spec: the fields \<open>transitionType\<close> and \<open>isHook\<close> of a scene. The
  declaration of \<open>ScriptScene\<close> that the newest player reads them from is absent; the data
  model describes them as an optional enumeration of five styles (default fade) and an
  optional boolean. The field \<open>id\<close> is named \<open>sid\<close> here.
\<close>

record scene =
  sid :: int
  visualDescription :: string
  narration :: string
  durationEstimate :: real
  transitionType :: "transition option"
  isHook :: "bool option"

record audio_buffer =
  buf_duration :: real

record html_image =
  src :: string
  complete :: bool
  naturalWidth :: nat

datatype asset_status = Pending | Loading | Completed | Error

record asset =
  sceneId :: int
  audioBuffer :: "audio_buffer option"
  imageElement :: "html_image option"
  status :: asset_status

type_synonym assets = "int \<rightharpoonup> asset"

text \<open>
  A timeline entry is the scene spread into a new object together with \<open>start\<close>,
  \<open>duration\<close> and \<open>end\<close>; the scene is kept as one field, and \<open>end\<close> is named
  \<open>end_time\<close>.
\<close>

record entry =
  scene :: scene
  start :: real
  duration :: real
  end_time :: real

section \<open>Timeline builder\<close>

text \<open>
  \<open>getTimeline\<close> of the current player: a cursor starts at zero and every scene takes
  \<open>durationEstimate\<close> seconds. \<open>timelineFrom\<close> is the \<open>map\<close> callback with the captured
  cursor made an argument.
\<close>

fun timelineFrom :: "real \<Rightarrow> scene list \<Rightarrow> entry list" where
  "timelineFrom cursor [] = []"
| "timelineFrom cursor (s # ss) =
     (let duration = durationEstimate s;
          start = cursor;
          cursor' = cursor + duration
      in \<lparr>scene = s, start = start, duration = duration, end_time = cursor'\<rparr>
           # timelineFrom cursor' ss)"

definition getTimeline :: "scene list \<Rightarrow> entry list" where
  "getTimeline scenes = timelineFrom 0 scenes"

text \<open>
  \<open>x || 0\<close> on a number or \<open>undefined\<close>: the left operand unless it is falsy.
\<close>

definition orZero :: "real option \<Rightarrow> real" where
  "orZero x = (case x of None \<Rightarrow> 0 | Some v \<Rightarrow> if v = 0 then 0 else v)"

definition lastEnd :: "entry list \<Rightarrow> real option" where
  "lastEnd timeline = (if timeline = [] then None else Some (end_time (last timeline)))"

definition totalDuration :: "scene list \<Rightarrow> real" where
  "totalDuration scenes = orZero (lastEnd (getTimeline scenes))"

text \<open>
  \<open>getTimeline\<close> of the earlier player snapshot: the duration of a scene is
  \<open>asset?.audioBuffer?.duration || scene.durationEstimate\<close>, the duration of its decoded
  narration when the asset has one and that number is truthy, and the estimate otherwise.
  \<open>audioOf\<close> is \<open>assets[id]?.audioBuffer\<close>.
\<close>

definition audioOf :: "assets \<Rightarrow> int \<Rightarrow> audio_buffer option" where
  "audioOf m i = (case m i of None \<Rightarrow> None | Some a \<Rightarrow> audioBuffer a)"

definition sceneDuration_v1 :: "assets \<Rightarrow> scene \<Rightarrow> real" where
  "sceneDuration_v1 m s =
     (case audioOf m (sid s) of
        None \<Rightarrow> durationEstimate s
      | Some b \<Rightarrow> if buf_duration b = 0 then durationEstimate s else buf_duration b)"

fun timelineFrom_v1 :: "assets \<Rightarrow> real \<Rightarrow> scene list \<Rightarrow> entry list" where
  "timelineFrom_v1 m cursor [] = []"
| "timelineFrom_v1 m cursor (s # ss) =
     (let duration = sceneDuration_v1 m s;
          start = cursor;
          cursor' = cursor + duration
      in \<lparr>scene = s, start = start, duration = duration, end_time = cursor'\<rparr>
           # timelineFrom_v1 m cursor' ss)"

definition getTimeline_v1 :: "scene list \<Rightarrow> assets \<Rightarrow> entry list" where
  "getTimeline_v1 scenes m = timelineFrom_v1 m 0 scenes"

definition totalDuration_v1 :: "scene list \<Rightarrow> assets \<Rightarrow> real" where
  "totalDuration_v1 scenes m = orZero (lastEnd (getTimeline_v1 scenes m))"

section \<open>Player state\<close>

text \<open>
  The component keeps its state in refs. \<open>audioContext\<close> says that \<open>audioContextRef\<close> and
  \<open>destinationRef\<close> are set (the mount effect sets both together), \<open>canvas\<close> that the
  canvas and its 2D context exist. A started \<open>AudioBufferSourceNode\<close> is recorded with
  the arguments of its \<open>start\<close> and \<open>stop\<close> calls; every node that is started is pushed
  on \<open>activeSources\<close>, and \<open>stopAudio\<close> stops and drops them all. What the component
  does to its surroundings (callbacks, alerts, painted frames, recorder calls, downloads)
  is appended to \<open>events\<close>; \<open>timers\<close> holds the pending \<open>setTimeout\<close> callbacks and
  \<open>frameRequested\<close> says that a \<open>requestAnimationFrame\<close> callback is pending.
\<close>

record audio_source =
  buffer :: audio_buffer
  loop :: bool
  gain :: real
  startAt :: real
  fromOffset :: real
  stopAt :: "real option"

datatype canvas_op =
    FillRect string real real real real
  | DrawImage html_image real real real real real
  | Save
  | Restore
  | SetFilterBlur real
  | SetComposite string

datatype recorder_state = Inactive | Recording | Paused

record recorder =
  rstate :: recorder_state
  mimeType :: "string option"

datatype timer = PreRoll | PostRoll

datatype event =
    Alert string
  | PlaybackEnd
  | Progress real real int
  | Frame "canvas_op list"
  | RecorderStart
  | RecorderStop
  | Download string nat

datatype js_error = TypeError

record player =
  audioContext :: bool
  canvas :: bool
  mediaRecorder :: "recorder option"
  chunks :: "nat list"
  frameRequested :: bool
  startTime :: real
  pauseTime :: real
  isPlaying :: bool
  isRecording :: bool
  activeSources :: "audio_source list"
  timers :: "timer list"
  events :: "event list"

record props =
  scenes :: "scene list"
  assets :: assets
  bgMusicBuffer :: "audio_buffer option"
  width :: real
  height :: real

datatype encoder_fault = NoFault | ConstructorThrows | StartThrows

record host =
  isTypeSupported :: "string \<Rightarrow> bool"
  encoderFault :: encoder_fault

definition emit :: "event \<Rightarrow> player \<Rightarrow> player" where
  "emit e s = s\<lparr>events := events s @ [e]\<rparr>"

definition onPlaybackEnd :: "player \<Rightarrow> player" where
  "onPlaybackEnd s = emit PlaybackEnd s"

definition onProgress :: "real \<Rightarrow> real \<Rightarrow> int \<Rightarrow> player \<Rightarrow> player" where
  "onProgress time dur sceneIndex s = emit (Progress time dur sceneIndex) s"

definition alert :: "string \<Rightarrow> player \<Rightarrow> player" where
  "alert msg s = emit (Alert msg) s"

definition requestAnimationFrame :: "player \<Rightarrow> player" where
  "requestAnimationFrame s = s\<lparr>frameRequested := True\<rparr>"

definition cancelAnimationFrame :: "player \<Rightarrow> player" where
  "cancelAnimationFrame s = s\<lparr>frameRequested := False\<rparr>"

definition setTimeout :: "timer \<Rightarrow> player \<Rightarrow> player" where
  "setTimeout t s = s\<lparr>timers := timers s @ [t]\<rparr>"

section \<open>Audio scheduling engine\<close>

definition stopAudio :: "player \<Rightarrow> player" where
  "stopAudio s = s\<lparr>activeSources := []\<rparr>"

definition push :: "audio_source \<Rightarrow> player \<Rightarrow> player" where
  "push node s = s\<lparr>activeSources := activeSources s @ [node]\<rparr>"

text \<open>
  The remainder \<open>a % b\<close> of JavaScript on numbers: the quotient is truncated towards
  zero. (For \<open>b = 0\<close> JavaScript gives NaN; a decoded buffer has a positive duration.)
\<close>

definition jsRem :: "real \<Rightarrow> real \<Rightarrow> real" where
  "jsRem a b =
     (let q = a / b;
          n = (if 0 \<le> q then \<lfloor>q\<rfloor> else \<lceil>q\<rceil>)
      in a - b * of_int n)"

definition scheduleBackground :: "props \<Rightarrow> real \<Rightarrow> player \<Rightarrow> player" where
  "scheduleBackground P startOffset s =
     (case bgMusicBuffer P of
        None \<Rightarrow> s
      | Some bg \<Rightarrow>
          push \<lparr>buffer = bg, loop = True, gain = 15 / 100, startAt = 0,
                fromOffset = jsRem startOffset (buf_duration bg), stopAt = None\<rparr> s)"

text \<open>The body of \<open>timeline.forEach\<close> in \<open>scheduleAudio\<close>.\<close>

definition scheduleItem :: "props \<Rightarrow> real \<Rightarrow> real \<Rightarrow> entry \<Rightarrow> player \<Rightarrow> player" where
  "scheduleItem P startOffset currentTime item s =
     (case audioOf (assets P) (sid (scene item)) of
        None \<Rightarrow> s
      | Some b \<Rightarrow>
          (let delay = start item - startOffset
           in if delay \<ge> 0 then
                push \<lparr>buffer = b, loop = False, gain = 1,
                      startAt = currentTime + delay, fromOffset = 0,
                      stopAt = Some (currentTime + end_time item - startOffset)\<rparr> s
              else if end_time item > startOffset then
                (let offset = startOffset - start item
                 in push \<lparr>buffer = b, loop = False, gain = 1,
                           startAt = 0, fromOffset = offset,
                           stopAt = Some (currentTime + (end_time item - startOffset))\<rparr> s)
              else s))"

definition scheduleAudio :: "props \<Rightarrow> real \<Rightarrow> real \<Rightarrow> player \<Rightarrow> player" where
  "scheduleAudio P startOffset currentTime s =
     (if \<not> audioContext s then s
      else
        (let timeline = getTimeline (scenes P);
             s1 = scheduleBackground P startOffset s
         in fold (scheduleItem P startOffset currentTime) timeline s1))"

text \<open>
  The audio clock's rule for \<open>start(when, offset)\<close>: a node whose \<open>when\<close> is not after
  the current time begins at once.
\<close>

definition beginsAt :: "real \<Rightarrow> audio_source \<Rightarrow> real" where
  "beginsAt currentTime node = max currentTime (startAt node)"

text \<open>
  A started node as the audio clock sees it: when it begins and when it stops, counted
  from the current time of the clock.
\<close>

definition relativeTo ::
  "real \<Rightarrow> audio_source \<Rightarrow> audio_buffer \<times> bool \<times> real \<times> real \<times> real \<times> real option" where
  "relativeTo currentTime node =
     (buffer node, loop node, gain node, beginsAt currentTime node - currentTime,
      fromOffset node, map_option (\<lambda>t. t - currentTime) (stopAt node))"

text \<open>
  \<open>initialPlayer\<close> is the state of a mounted component before any call. The nodes that
  one pass of the loop body starts for an entry, and the node started for the background
  track, are what each adds to its empty \<open>activeSources\<close>.
\<close>

definition initialPlayer :: player where
  "initialPlayer =
     \<lparr>audioContext = True, canvas = True, mediaRecorder = None, chunks = [],
      frameRequested = False, startTime = 0, pauseTime = 0, isPlaying = False,
      isRecording = False, activeSources = [], timers = [], events = []\<rparr>"

definition narrationNodes :: "props \<Rightarrow> real \<Rightarrow> real \<Rightarrow> entry \<Rightarrow> audio_source list" where
  "narrationNodes P startOffset currentTime item =
     activeSources (scheduleItem P startOffset currentTime item initialPlayer)"

definition backgroundNodes :: "props \<Rightarrow> real \<Rightarrow> audio_source list" where
  "backgroundNodes P startOffset = activeSources (scheduleBackground P startOffset initialPlayer)"

section \<open>Frame renderer\<close>

text \<open>\<open>Array.prototype.findIndex\<close>, with \<open>None\<close> for the result \<open>-1\<close>.\<close>

fun findIndex :: "('a \<Rightarrow> bool) \<Rightarrow> 'a list \<Rightarrow> nat option" where
  "findIndex p [] = None"
| "findIndex p (x # xs) = (if p x then Some 0 else map_option Suc (findIndex p xs))"

definition drawScene ::
  "props \<Rightarrow> html_image \<Rightarrow> real \<Rightarrow> real \<Rightarrow> real \<Rightarrow> real \<Rightarrow> canvas_op" where
  "drawScene P img scale xOff yOff alpha =
     (let w = width P * scale;
          h = height P * scale;
          x = (width P - w) / 2 + xOff;
          y = (height P - h) / 2 + yOff
      in DrawImage img alpha x y w h)"

text \<open>\<open>asset?.imageElement && asset.imageElement.complete\<close>, giving the image.\<close>

definition readyImage :: "asset option \<Rightarrow> html_image option" where
  "readyImage a =
     (case a of
        None \<Rightarrow> None
      | Some x \<Rightarrow>
          (case imageElement x of
             None \<Rightarrow> None
           | Some img \<Rightarrow> if complete img then Some img else None))"

text \<open>The \<open>switch\<close> over the transition type, between \<open>ctx.save()\<close> and \<open>ctx.restore()\<close>.\<close>

fun transitionOps :: "props \<Rightarrow> transition \<Rightarrow> html_image \<Rightarrow> real \<Rightarrow> canvas_op list" where
  "transitionOps P Slide img tProgress =
     (let offsetX = width P * (1 - tProgress) in [drawScene P img 1 offsetX 0 1])"
| "transitionOps P Zoom img tProgress =
     (let zoomScale = 8 / 10 + tProgress * (2 / 10) in [drawScene P img zoomScale 0 0 tProgress])"
| "transitionOps P Blur img tProgress =
     [SetFilterBlur ((1 - tProgress) * 20), drawScene P img 1 0 0 tProgress]"
| "transitionOps P Dissolve img tProgress =
     [SetComposite ''source-over'', drawScene P img 1 0 0 tProgress]"
| "transitionOps P Fade img tProgress = [drawScene P img 1 0 0 tProgress]"

definition transDur :: real where
  "transDur = 8 / 10"

text \<open>
  The transition block of \<open>renderCanvas\<close>: \<open>timeline\<close>, \<open>currentIdx\<close> and \<open>clampedTime\<close>
  are the renderer's local values.
\<close>

definition transitionLayer :: "props \<Rightarrow> entry list \<Rightarrow> nat \<Rightarrow> real \<Rightarrow> canvas_op list" where
  "transitionLayer P timeline currentIdx clampedTime =
     (let currentScene = timeline ! currentIdx
      in if end_time currentScene - clampedTime < transDur \<and> currentIdx < length timeline - 1 then
           (let nextScene = timeline ! (currentIdx + 1);
                nextAsset = assets P (sid (scene nextScene))
            in case readyImage nextAsset of
                 None \<Rightarrow> []
               | Some img \<Rightarrow>
                   (let tProgress = 1 - (end_time currentScene - clampedTime) / transDur;
                        type = (case transitionType (scene currentScene) of
                                  None \<Rightarrow> Fade | Some ty \<Rightarrow> ty)
                    in [Save] @ transitionOps P type img tProgress @ [Restore]))
         else [])"

text \<open>
  The active scene's image with its slow zoom. A scene of duration zero makes the scale
  NaN or infinite, and \<open>drawImage\<close> ignores a call with such an argument.
\<close>

definition sceneLayer :: "props \<Rightarrow> entry \<Rightarrow> real \<Rightarrow> canvas_op list" where
  "sceneLayer P currentScene clampedTime =
     (case readyImage (assets P (sid (scene currentScene))) of
        None \<Rightarrow> []
      | Some img \<Rightarrow>
          if duration currentScene = 0 then []
          else
            (let progress = (clampedTime - start currentScene) / duration currentScene;
                 baseScale = 1 + progress * (15 / 100)
             in [drawScene P img baseScale 0 0 1]))"

definition hookBar :: "props \<Rightarrow> entry \<Rightarrow> real \<Rightarrow> canvas_op list" where
  "hookBar P currentScene time =
     (if isHook (scene currentScene) = Some True \<and> time < 5 then
        [FillRect ''rgba(59, 130, 246, 0.5)'' 0 (height P - 10) (width P * (1 - time / 5)) 10]
      else [])"

definition activeIndex :: "entry list \<Rightarrow> real \<Rightarrow> nat option" where
  "activeIndex timeline clampedTime =
     findIndex (\<lambda>t. clampedTime \<ge> start t \<and> clampedTime < end_time t) timeline"

text \<open>What one call of \<open>renderCanvas\<close> paints on an existing canvas.\<close>

definition paint :: "props \<Rightarrow> real \<Rightarrow> canvas_op list" where
  "paint P time =
     (let clear = FillRect ''#000'' 0 0 (width P) (height P);
          timeline = getTimeline (scenes P)
      in if length timeline = 0 then [clear]
         else
           (let clampedTime = min time (totalDuration (scenes P) - 1 / 1000);
                currentIdx = (case activeIndex timeline clampedTime of
                                None \<Rightarrow> length timeline - 1 | Some i \<Rightarrow> i);
                currentScene = timeline ! currentIdx
            in [clear]
               @ sceneLayer P currentScene clampedTime
               @ transitionLayer P timeline currentIdx clampedTime
               @ [FillRect ''vignette'' 0 0 (width P) (height P)]
               @ hookBar P currentScene time))"

definition renderCanvas :: "props \<Rightarrow> real \<Rightarrow> player \<Rightarrow> player" where
  "renderCanvas P time s = (if \<not> canvas s then s else emit (Frame (paint P time)) s)"

section \<open>Playback controller\<close>

text \<open>
  \<open>recorder.stop()\<close> makes the recorder inactive; its \<open>stop\<close> event arrives later and is
  the function \<open>recorder_onstop\<close> below.
\<close>

definition handleStop :: "player \<Rightarrow> js_error + player" where
  "handleStop s =
     (let s1 = cancelAnimationFrame (stopAudio (s\<lparr>isPlaying := False\<rparr>))
      in if isRecording s1
            \<and> (case mediaRecorder s1 of None \<Rightarrow> True | Some r \<Rightarrow> rstate r \<noteq> Inactive) then
           (case mediaRecorder s1 of
              None \<Rightarrow> Inl TypeError
            | Some r \<Rightarrow>
                Inr (emit RecorderStop
                       (s1\<lparr>mediaRecorder := Some (r\<lparr>rstate := Inactive\<rparr>),
                           isRecording := False\<rparr>)))
         else Inr s1)"

text \<open>The callback of the one-second timer that \<open>drawFrame\<close> sets while recording.\<close>

definition postRoll :: "player \<Rightarrow> js_error + player" where
  "postRoll s = (case handleStop s of Inl e \<Rightarrow> Inl e | Inr s1 \<Rightarrow> Inr (onPlaybackEnd s1))"

text \<open>\<open>now\<close> is the value of \<open>Date.now()\<close>, in milliseconds.\<close>

definition drawFrame :: "props \<Rightarrow> real \<Rightarrow> player \<Rightarrow> js_error + player" where
  "drawFrame P now s =
     (if \<not> isPlaying s then Inr s
      else
        (let elapsed = (now - startTime s) / 1000;
             timeline = getTimeline (scenes P);
             clampedTime = min elapsed (totalDuration (scenes P) - 1 / 1000)
         in if elapsed \<ge> totalDuration (scenes P) then
              (let s1 = renderCanvas P (totalDuration (scenes P) - 1 / 1000) s
               in if isRecording s1 then Inr (setTimeout PostRoll s1)
                  else (case handleStop s1 of
                          Inl e \<Rightarrow> Inl e
                        | Inr s2 \<Rightarrow> Inr (onPlaybackEnd s2)))
            else
              (let currentIdx =
                     (case activeIndex timeline clampedTime of
                        None \<Rightarrow> if length timeline > 0 then int (length timeline) - 1 else - 1
                      | Some i \<Rightarrow> int i)
               in Inr (requestAnimationFrame
                         (renderCanvas P elapsed
                            (onProgress elapsed (totalDuration (scenes P)) currentIdx s))))))"

text \<open>The host runs a requested frame callback once; the request is then spent.\<close>

definition tick :: "props \<Rightarrow> real \<Rightarrow> player \<Rightarrow> js_error + player" where
  "tick P now s = drawFrame P now (s\<lparr>frameRequested := False\<rparr>)"

text \<open>\<open>currentTime\<close> is the audio context's clock, in seconds.\<close>

definition play :: "props \<Rightarrow> real \<Rightarrow> real \<Rightarrow> player \<Rightarrow> player" where
  "play P now currentTime s =
     (if isPlaying s then s
      else
        requestAnimationFrame
          (scheduleAudio P (pauseTime s) currentTime
             (s\<lparr>isPlaying := True, startTime := now - pauseTime s * 1000\<rparr>)))"

definition pause :: "real \<Rightarrow> player \<Rightarrow> player" where
  "pause now s =
     (let s1 = cancelAnimationFrame (stopAudio (s\<lparr>isPlaying := False\<rparr>))
      in s1\<lparr>pauseTime := (now - startTime s1) / 1000\<rparr>)"

section \<open>Capture pipeline\<close>

text \<open>The loop of \<open>validateAssets\<close> over the timeline, leaving at the first unready scene.\<close>

fun allReady :: "assets \<Rightarrow> entry list \<Rightarrow> bool" where
  "allReady m [] = True"
| "allReady m (e # es) =
     (case m (sid (scene e)) of
        None \<Rightarrow> False
      | Some a \<Rightarrow>
          (case imageElement a of
             None \<Rightarrow> False
           | Some img \<Rightarrow>
               if \<not> complete img \<or> naturalWidth img = 0 then False else allReady m es))"

definition validateAssets :: "props \<Rightarrow> bool" where
  "validateAssets P = allReady (assets P) (getTimeline (scenes P))"

definition getSupportedMimeType :: "host \<Rightarrow> string option" where
  "getSupportedMimeType H =
     find (isTypeSupported H)
       [''video/webm;codecs=vp9'', ''video/webm;codecs=vp8'', ''video/webm'', ''video/mp4'']"

text \<open>\<open>String.prototype.includes\<close>.\<close>

fun str_includes :: "string \<Rightarrow> string \<Rightarrow> bool" where
  "str_includes [] sub = (sub = [])"
| "str_includes (c # cs) sub = (take (length sub) (c # cs) = sub \<or> str_includes cs sub)"

definition ondataavailable :: "nat \<Rightarrow> player \<Rightarrow> player" where
  "ondataavailable n s = (if n > 0 then s\<lparr>chunks := chunks s @ [n]\<rparr> else s)"

text \<open>
  The recorder's \<open>stop\<close> handler of the current player. \<open>mime\<close> is the value that
  \<open>record\<close> captured; reading \<open>includes\<close> from \<open>undefined\<close> throws before the click.
  A download is logged with the file extension and the size of the blob.
\<close>

definition recorder_onstop :: "string option \<Rightarrow> player \<Rightarrow> js_error + player" where
  "recorder_onstop mime s =
     (let blob = sum_list (chunks s)
      in case mime of
           None \<Rightarrow> Inl TypeError
         | Some m \<Rightarrow>
             Inr (emit (Download (if str_includes m ''mp4'' then ''mp4'' else ''webm'') blob) s))"

text \<open>The same handler in the earlier snapshot, where \<open>record\<close> has checked the type.\<close>

definition recorder_onstop_v1 :: "string \<Rightarrow> player \<Rightarrow> player" where
  "recorder_onstop_v1 mime s =
     (let blob = sum_list (chunks s)
      in if blob = 0 then s
         else emit (Download (if str_includes mime ''mp4'' then ''mp4'' else ''webm'') blob) s)"

text \<open>The callback of the 800 ms timer that \<open>record\<close> sets.\<close>

definition preRoll :: "props \<Rightarrow> real \<Rightarrow> real \<Rightarrow> player \<Rightarrow> player" where
  "preRoll P now currentTime s =
     requestAnimationFrame
       (scheduleAudio P 0 currentTime
          (s\<lparr>isPlaying := True, startTime := now, pauseTime := 0\<rparr>))"

text \<open>
  \<open>record\<close>, named \<open>record_video\<close> here. Resuming a suspended audio context changes
  nothing of the state kept here. Without a canvas or an audio destination the calls on
  them throw outside the \<open>try\<close> block; inside it the host may throw from the recorder's
  constructor or from \<open>start\<close>.
\<close>

definition record_video :: "props \<Rightarrow> host \<Rightarrow> player \<Rightarrow> js_error + player" where
  "record_video P H s =
     (case handleStop s of
        Inl e \<Rightarrow> Inl e
      | Inr s1 \<Rightarrow>
          if totalDuration (scenes P) = 0 then Inr (onPlaybackEnd (alert ''Timeline empty.'' s1))
          else if \<not> validateAssets P then
            Inr (onPlaybackEnd (alert ''Wait for all assets.'' s1))
          else
            (let s2 = s1\<lparr>chunks := []\<rparr>
             in if \<not> canvas s2 \<or> \<not> audioContext s2 then Inl TypeError
                else
                  (let mime = getSupportedMimeType H
                   in case encoderFault H of
                        ConstructorThrows \<Rightarrow> Inr (onPlaybackEnd s2)
                      | StartThrows \<Rightarrow>
                          Inr (onPlaybackEnd
                                 (s2\<lparr>mediaRecorder := Some \<lparr>rstate = Inactive, mimeType = mime\<rparr>,
                                     isRecording := True\<rparr>))
                      | NoFault \<Rightarrow>
                          Inr (setTimeout PreRoll
                                 (renderCanvas P 0
                                    (emit RecorderStart
                                       (s2\<lparr>mediaRecorder :=
                                              Some \<lparr>rstate = Recording, mimeType = mime\<rparr>,
                                           isRecording := True\<rparr>)))))))"

definition stopRecording :: "player \<Rightarrow> js_error + player" where
  "stopRecording s = handleStop s"

section \<open>Example inputs\<close>

definition mkScene :: "int \<Rightarrow> real \<Rightarrow> transition option \<Rightarrow> scene" where
  "mkScene i d ty =
     \<lparr>sid = i, visualDescription = [], narration = [], durationEstimate = d,
      transitionType = ty, isHook = None\<rparr>"

definition mkImage :: "string \<Rightarrow> html_image" where
  "mkImage name = \<lparr>src = name, complete = True, naturalWidth = 1280\<rparr>"

definition mkAsset :: "int \<Rightarrow> real option \<Rightarrow> html_image option \<Rightarrow> asset_status \<Rightarrow> asset" where
  "mkAsset i d img st =
     \<lparr>sceneId = i, audioBuffer = map_option (\<lambda>x. \<lparr>buf_duration = x\<rparr>) d,
      imageElement = img, status = st\<rparr>"

definition demoScenes :: "scene list" where
  "demoScenes = [mkScene 1 4 None, mkScene 2 3 None, mkScene 3 5 None]"

definition demoAssets :: assets where
  "demoAssets =
     [1 \<mapsto> mkAsset 1 (Some (9 / 2)) (Some (mkImage ''one'')) Completed,
      2 \<mapsto> mkAsset 2 (Some 3) (Some (mkImage ''two'')) Completed,
      3 \<mapsto> mkAsset 3 (Some 5) (Some (mkImage ''three'')) Completed]"

definition demoProps :: props where
  "demoProps =
     \<lparr>scenes = demoScenes, assets = demoAssets, bgMusicBuffer = None,
      width = 1280, height = 720\<rparr>"

definition silentProps :: props where
  "silentProps =
     \<lparr>scenes = [mkScene 1 5 None], assets = Map.empty, bgMusicBuffer = None,
      width = 1280, height = 720\<rparr>"

definition narratedProps :: props where
  "narratedProps =
     \<lparr>scenes = [mkScene 1 5 None],
      assets = [1 \<mapsto> mkAsset 1 (Some 3) (Some (mkImage ''one'')) Completed],
      bgMusicBuffer = None, width = 1280, height = 720\<rparr>"

definition playingAtZero :: player where
  "playingAtZero = initialPlayer\<lparr>isPlaying := True, frameRequested := True\<rparr>"

definition twoProps :: props where
  "twoProps =
     \<lparr>scenes = [mkScene 1 4 (Some Slide), mkScene 2 3 (Some Zoom)],
      assets = [1 \<mapsto> mkAsset 1 (Some 4) (Some (mkImage ''one'')) Completed,
                2 \<mapsto> mkAsset 2 (Some 3) (Some (mkImage ''two'')) Completed],
      bgMusicBuffer = None, width = 1280, height = 720\<rparr>"

definition emptyProps :: props where
  "emptyProps =
     \<lparr>scenes = [], assets = Map.empty, bgMusicBuffer = None, width = 1280, height = 720\<rparr>"

definition regenProps :: props where
  "regenProps =
     \<lparr>scenes = [mkScene 1 5 None],
      assets = [1 \<mapsto> mkAsset 1 None (Some (mkImage ''old'')) Loading],
      bgMusicBuffer = None, width = 1280, height = 720\<rparr>"

definition webmHost :: host where
  "webmHost = \<lparr>isTypeSupported = (\<lambda>t. t = ''video/webm''), encoderFault = NoFault\<rparr>"

definition recordingPlayer :: player where
  "recordingPlayer =
     initialPlayer
       \<lparr>mediaRecorder := Some \<lparr>rstate = Recording, mimeType = Some ''video/webm''\<rparr>,
        isPlaying := True, isRecording := True, frameRequested := True\<rparr>"

definition stuckPlayer :: player where
  "stuckPlayer =
     initialPlayer
       \<lparr>mediaRecorder := Some \<lparr>rstate = Inactive, mimeType = Some ''video/webm''\<rparr>,
        isRecording := True, events := [PlaybackEnd]\<rparr>"

section \<open>Properties of the timeline builder\<close>

lemma timelineFrom_length: "length (timelineFrom c ss) = length ss"
  by (induction ss arbitrary: c) (simp_all add: Let_def)

lemma timelineFrom_first: "ss \<noteq> [] \<Longrightarrow> start (timelineFrom c ss ! 0) = c"
  by (cases ss) (simp_all add: Let_def)

lemma timelineFrom_adjacent:
  "Suc i < length ss \<Longrightarrow> end_time (timelineFrom c ss ! i) = start (timelineFrom c ss ! Suc i)"
proof (induction ss arbitrary: c i)
  case Nil
  then show ?case by simp
next
  case (Cons s ss)
  show ?case
  proof (cases i)
    case 0
    with Cons.prems have "ss \<noteq> []" by auto
    with 0 show ?thesis by (simp add: Let_def timelineFrom_first)
  next
    case (Suc j)
    with Cons.prems have "Suc j < length ss" by simp
    from Cons.IH[OF this] Suc show ?thesis by (simp add: Let_def)
  qed
qed

lemma timelineFrom_each:
  "e \<in> set (timelineFrom c ss) \<Longrightarrow> end_time e = start e + duration e"
  by (induction ss arbitrary: c) (auto simp: Let_def)

lemma orZero_Some: "orZero (Some v) = v"
  by (simp add: orZero_def)

text \<open>
  C1. For every list of scenes (and whatever the asset map holds, which the current
  \<open>getTimeline\<close> does not read) the timeline is anchored at zero and contiguous: the
  first entry starts at 0, every entry ends where the next one starts, every entry's end
  is its start plus its duration, and \<open>totalDuration\<close> is the end of the last entry, and 0
  for an empty list of scenes.
\<close>

theorem timeline_contiguous:
  "(getTimeline scs \<noteq> [] \<longrightarrow> start (getTimeline scs ! 0) = 0)
   \<and> (\<forall>i. Suc i < length (getTimeline scs) \<longrightarrow>
          end_time (getTimeline scs ! i) = start (getTimeline scs ! Suc i))
   \<and> (\<forall>e \<in> set (getTimeline scs). end_time e = start e + duration e)
   \<and> (getTimeline scs \<noteq> [] \<longrightarrow> totalDuration scs = end_time (last (getTimeline scs)))
   \<and> (scs = [] \<longrightarrow> getTimeline scs = [] \<and> totalDuration scs = 0)"
proof -
  have len: "length (getTimeline scs) = length scs"
    by (simp add: getTimeline_def timelineFrom_length)
  have a: "getTimeline scs \<noteq> [] \<longrightarrow> start (getTimeline scs ! 0) = 0"
    by (cases scs) (simp_all add: getTimeline_def Let_def)
  have b: "\<forall>i. Suc i < length (getTimeline scs) \<longrightarrow>
          end_time (getTimeline scs ! i) = start (getTimeline scs ! Suc i)"
    using len by (simp add: getTimeline_def timelineFrom_adjacent)
  have c: "\<forall>e \<in> set (getTimeline scs). end_time e = start e + duration e"
    by (simp add: getTimeline_def timelineFrom_each)
  have d: "getTimeline scs \<noteq> [] \<longrightarrow> totalDuration scs = end_time (last (getTimeline scs))"
    by (simp add: totalDuration_def lastEnd_def orZero_Some)
  have e: "scs = [] \<longrightarrow> getTimeline scs = [] \<and> totalDuration scs = 0"
    by (simp add: totalDuration_def lastEnd_def orZero_def getTimeline_def)
  from a b c d e show ?thesis by blast
qed

theorem timeline_contiguous_witness:
  "getTimeline demoScenes \<noteq> []
   \<and> start (getTimeline demoScenes ! 0) = 0
   \<and> Suc 0 < length (getTimeline demoScenes)
   \<and> end_time (getTimeline demoScenes ! 0) = start (getTimeline demoScenes ! Suc 0)
   \<and> getTimeline demoScenes ! 0 \<in> set (getTimeline demoScenes)
   \<and> end_time (getTimeline demoScenes ! 0)
       = start (getTimeline demoScenes ! 0) + duration (getTimeline demoScenes ! 0)
   \<and> totalDuration demoScenes = end_time (last (getTimeline demoScenes))
   \<and> totalDuration demoScenes = 12
   \<and> totalDuration [] = 0"
  using timeline_contiguous [of demoScenes] timeline_contiguous [of "[]"]
  by (simp add: getTimeline_def demoScenes_def mkScene_def totalDuration_def lastEnd_def
      orZero_def Let_def)

text \<open>The timeline of the earlier snapshot, which reads the asset map, has the same shape.\<close>

lemma timelineFrom_v1_length: "length (timelineFrom_v1 m c ss) = length ss"
  by (induction ss arbitrary: c) (simp_all add: Let_def)

lemma timelineFrom_v1_first: "ss \<noteq> [] \<Longrightarrow> start (timelineFrom_v1 m c ss ! 0) = c"
  by (cases ss) (simp_all add: Let_def)

lemma timelineFrom_v1_adjacent:
  "Suc i < length ss \<Longrightarrow>
   end_time (timelineFrom_v1 m c ss ! i) = start (timelineFrom_v1 m c ss ! Suc i)"
proof (induction ss arbitrary: c i)
  case Nil
  then show ?case by simp
next
  case (Cons s ss)
  show ?case
  proof (cases i)
    case 0
    with Cons.prems have "ss \<noteq> []" by auto
    with 0 show ?thesis by (simp add: Let_def timelineFrom_v1_first)
  next
    case (Suc j)
    with Cons.prems have "Suc j < length ss" by simp
    from Cons.IH[OF this] Suc show ?thesis by (simp add: Let_def)
  qed
qed

lemma timelineFrom_v1_each:
  "e \<in> set (timelineFrom_v1 m c ss) \<Longrightarrow> end_time e = start e + duration e"
  by (induction ss arbitrary: c) (auto simp: Let_def)

lemma timeline_v1_contiguous:
  "(getTimeline_v1 scs m \<noteq> [] \<longrightarrow> start (getTimeline_v1 scs m ! 0) = 0)
   \<and> (\<forall>i. Suc i < length (getTimeline_v1 scs m) \<longrightarrow>
          end_time (getTimeline_v1 scs m ! i) = start (getTimeline_v1 scs m ! Suc i))
   \<and> (\<forall>e \<in> set (getTimeline_v1 scs m). end_time e = start e + duration e)
   \<and> (getTimeline_v1 scs m \<noteq> [] \<longrightarrow>
        totalDuration_v1 scs m = end_time (last (getTimeline_v1 scs m)))
   \<and> (scs = [] \<longrightarrow> getTimeline_v1 scs m = [] \<and> totalDuration_v1 scs m = 0)"
proof -
  have len: "length (getTimeline_v1 scs m) = length scs"
    by (simp add: getTimeline_v1_def timelineFrom_v1_length)
  have a: "getTimeline_v1 scs m \<noteq> [] \<longrightarrow> start (getTimeline_v1 scs m ! 0) = 0"
    by (cases scs) (simp_all add: getTimeline_v1_def Let_def)
  have b: "\<forall>i. Suc i < length (getTimeline_v1 scs m) \<longrightarrow>
          end_time (getTimeline_v1 scs m ! i) = start (getTimeline_v1 scs m ! Suc i)"
    using len by (simp add: getTimeline_v1_def timelineFrom_v1_adjacent)
  have c: "\<forall>e \<in> set (getTimeline_v1 scs m). end_time e = start e + duration e"
    by (simp add: getTimeline_v1_def timelineFrom_v1_each)
  have d: "getTimeline_v1 scs m \<noteq> [] \<longrightarrow>
        totalDuration_v1 scs m = end_time (last (getTimeline_v1 scs m))"
    by (simp add: totalDuration_v1_def lastEnd_def orZero_Some)
  have e: "scs = [] \<longrightarrow> getTimeline_v1 scs m = [] \<and> totalDuration_v1 scs m = 0"
    by (simp add: totalDuration_v1_def lastEnd_def orZero_def getTimeline_v1_def)
  from a b c d e show ?thesis by blast
qed

lemma timelineFrom_scene: "map scene (timelineFrom c ss) = ss"
  by (induction ss arbitrary: c) (simp_all add: Let_def)

lemma timelineFrom_duration:
  "e \<in> set (timelineFrom c ss) \<Longrightarrow> duration e = durationEstimate (scene e)"
  by (induction ss arbitrary: c) (auto simp: Let_def)

lemma timelineFrom_v1_scene: "map scene (timelineFrom_v1 m c ss) = ss"
  by (induction ss arbitrary: c) (simp_all add: Let_def)

lemma timelineFrom_v1_duration:
  "e \<in> set (timelineFrom_v1 m c ss) \<Longrightarrow> duration e = sceneDuration_v1 m (scene e)"
  by (induction ss arbitrary: c) (auto simp: Let_def)

lemma getTimeline_scenes: "map scene (getTimeline scs) = scs"
  by (simp add: getTimeline_def timelineFrom_scene)

text \<open>
  C5, as stated, makes the duration of an entry the duration of the decoded audio buffer
  whenever the asset map holds one. The current \<open>getTimeline\<close> does not read the asset
  map: a scene estimated at five seconds whose narration lasts three keeps five.
\<close>

theorem duration_ignores_audio_counterexample:
  "audioOf (assets narratedProps) (sid (scene (getTimeline (scenes narratedProps) ! 0)))
     = Some \<lparr>buf_duration = 3\<rparr>
   \<and> durationEstimate (scene (getTimeline (scenes narratedProps) ! 0)) = 5
   \<and> duration (getTimeline (scenes narratedProps) ! 0) = 5
   \<and> duration (getTimeline (scenes narratedProps) ! 0) \<noteq> buf_duration \<lparr>buf_duration = 3\<rparr>"
  by (simp add: narratedProps_def getTimeline_def mkScene_def mkAsset_def audioOf_def Let_def)

text \<open>
  C5, amended. The timeline has one entry per scene, in order. In the current player the
  duration of an entry is the scene's \<open>durationEstimate\<close>, whatever the asset map holds.
  In the earlier snapshot it is the duration of the decoded audio buffer when the asset
  has one and that duration is not zero, and \<open>durationEstimate\<close> otherwise.
\<close>

theorem entry_duration:
  "map scene (getTimeline scs) = scs
   \<and> (\<forall>e \<in> set (getTimeline scs). duration e = durationEstimate (scene e))
   \<and> map scene (getTimeline_v1 scs m) = scs
   \<and> (\<forall>e \<in> set (getTimeline_v1 scs m).
        (audioOf m (sid (scene e)) = None \<longrightarrow> duration e = durationEstimate (scene e))
        \<and> (\<forall>b. audioOf m (sid (scene e)) = Some b \<longrightarrow>
               duration e = (if buf_duration b = 0 then durationEstimate (scene e)
                             else buf_duration b)))"
  by (auto simp: getTimeline_def getTimeline_v1_def timelineFrom_scene timelineFrom_v1_scene
      timelineFrom_duration timelineFrom_v1_duration sceneDuration_v1_def)

theorem entry_duration_witness:
  "getTimeline (scenes narratedProps) ! 0 \<in> set (getTimeline (scenes narratedProps))
   \<and> duration (getTimeline (scenes narratedProps) ! 0) = 5
   \<and> getTimeline_v1 (scenes narratedProps) (assets narratedProps) ! 0
       \<in> set (getTimeline_v1 (scenes narratedProps) (assets narratedProps))
   \<and> audioOf (assets narratedProps)
        (sid (scene (getTimeline_v1 (scenes narratedProps) (assets narratedProps) ! 0)))
       = Some \<lparr>buf_duration = 3\<rparr>
   \<and> duration (getTimeline_v1 (scenes narratedProps) (assets narratedProps) ! 0) = 3"
  using entry_duration [of "scenes narratedProps" "assets narratedProps"]
  by (simp add: narratedProps_def getTimeline_def getTimeline_v1_def mkScene_def mkAsset_def
      audioOf_def sceneDuration_v1_def Let_def)

section \<open>Properties of the audio scheduling engine\<close>

lemma push_sources: "activeSources (push n s) = activeSources s @ [n]"
  by (simp add: push_def)

lemma scheduleItem_sources:
  "activeSources (scheduleItem P t0 now item s)
     = activeSources s @ narrationNodes P t0 now item"
  by (simp add: narrationNodes_def scheduleItem_def push_def initialPlayer_def Let_def
      split: option.splits)

lemma scheduleBackground_sources:
  "activeSources (scheduleBackground P t0 s) = activeSources s @ backgroundNodes P t0"
  by (simp add: backgroundNodes_def scheduleBackground_def push_def initialPlayer_def
      split: option.splits)

lemma fold_scheduleItem_sources:
  "activeSources (fold (scheduleItem P t0 now) items s)
     = activeSources s @ concat (map (narrationNodes P t0 now) items)"
proof (induction items arbitrary: s)
  case Nil
  show ?case by simp
next
  case (Cons item items)
  show ?case by (simp add: Cons.IH scheduleItem_sources)
qed

lemma scheduleAudio_sources:
  "activeSources (scheduleAudio P t0 now s)
     = (if audioContext s then
          activeSources s @ backgroundNodes P t0
            @ concat (map (narrationNodes P t0 now) (getTimeline (scenes P)))
        else activeSources s)"
  by (simp add: scheduleAudio_def Let_def fold_scheduleItem_sources scheduleBackground_sources)

lemma narrationNodes_cases:
  "narrationNodes P t0 now item =
     (case audioOf (assets P) (sid (scene item)) of
        None \<Rightarrow> []
      | Some b \<Rightarrow>
          if start item \<ge> t0 then
            [\<lparr>buffer = b, loop = False, gain = 1, startAt = now + (start item - t0),
              fromOffset = 0, stopAt = Some (now + end_time item - t0)\<rparr>]
          else if end_time item > t0 then
            [\<lparr>buffer = b, loop = False, gain = 1, startAt = 0,
              fromOffset = t0 - start item, stopAt = Some (now + (end_time item - t0))\<rparr>]
          else [])"
  by (simp add: narrationNodes_def scheduleItem_def push_def initialPlayer_def Let_def
      split: option.splits)

lemma demo_timeline:
  "getTimeline (scenes demoProps) =
     [\<lparr>scene = mkScene 1 4 None, start = 0, duration = 4, end_time = 4\<rparr>,
      \<lparr>scene = mkScene 2 3 None, start = 4, duration = 3, end_time = 7\<rparr>,
      \<lparr>scene = mkScene 3 5 None, start = 7, duration = 5, end_time = 12\<rparr>]"
  by (simp add: demoProps_def demoScenes_def getTimeline_def mkScene_def Let_def)

lemma demo_audio:
  "audioOf (assets demoProps) 1 = Some \<lparr>buf_duration = 9 / 2\<rparr>"
  "audioOf (assets demoProps) 2 = Some \<lparr>buf_duration = 3\<rparr>"
  "audioOf (assets demoProps) 3 = Some \<lparr>buf_duration = 5\<rparr>"
  by (simp_all add: demoProps_def demoAssets_def audioOf_def mkAsset_def)

lemma demo_background: "backgroundNodes demoProps t0 = []"
  by (simp add: backgroundNodes_def scheduleBackground_def initialPlayer_def demoProps_def)

lemma initial_audio: "audioContext initialPlayer" "activeSources initialPlayer = []"
  by (simp_all add: initialPlayer_def)

text \<open>
  C2. Every narration node that \<open>scheduleAudio\<close> starts for a timeline entry at playback
  offset \<open>t0\<close> is stopped at audio time \<open>now + (end - t0)\<close>, so the time between its
  beginning and its stop is \<open>end - max start t0\<close>, whatever the length of its buffer: the
  narration of a scene never sounds past the end of the scene. Assumed: the audio
  context exists and its clock \<open>now\<close> is not negative.
\<close>

theorem narration_stop_pinned:
  assumes "audioContext s" and "0 \<le> now"
  shows "set (activeSources (scheduleAudio P t0 now s))
           = set (activeSources s) \<union> set (backgroundNodes P t0)
             \<union> (\<Union>item \<in> set (getTimeline (scenes P)). set (narrationNodes P t0 now item))
         \<and> (\<forall>item \<in> set (getTimeline (scenes P)).
              \<forall>node \<in> set (narrationNodes P t0 now item).
                stopAt node = Some (now + (end_time item - t0))
                \<and> now + (end_time item - t0) - beginsAt now node
                    = end_time item - max (start item) t0)"
proof -
  have a: "set (activeSources (scheduleAudio P t0 now s))
           = set (activeSources s) \<union> set (backgroundNodes P t0)
             \<union> (\<Union>item \<in> set (getTimeline (scenes P)). set (narrationNodes P t0 now item))"
    using assms(1) by (simp add: scheduleAudio_sources Un_assoc)
  have b: "stopAt node = Some (now + (end_time item - t0))
           \<and> now + (end_time item - t0) - beginsAt now node
               = end_time item - max (start item) t0"
    if "node \<in> set (narrationNodes P t0 now item)" for item node
    using that assms(2)
    by (auto simp: narrationNodes_cases beginsAt_def max_def split: option.splits if_splits)
  from a b show ?thesis by blast
qed

theorem narration_stop_pinned_witness:
  "audioContext initialPlayer \<and> (0::real) \<le> 10
   \<and> activeSources (scheduleAudio demoProps (26 / 5) 10 initialPlayer)
       = [\<lparr>buffer = \<lparr>buf_duration = 3\<rparr>, loop = False, gain = 1, startAt = 0,
           fromOffset = 6 / 5, stopAt = Some (59 / 5)\<rparr>,
          \<lparr>buffer = \<lparr>buf_duration = 5\<rparr>, loop = False, gain = 1, startAt = 59 / 5,
           fromOffset = 0, stopAt = Some (84 / 5)\<rparr>]
   \<and> (59 / 5 :: real) - beginsAt 10 \<lparr>buffer = \<lparr>buf_duration = 3\<rparr>, loop = False, gain = 1,
         startAt = 0, fromOffset = 6 / 5, stopAt = Some (59 / 5)\<rparr> = 7 - max 4 (26 / 5)"
  using narration_stop_pinned [of initialPlayer 10 demoProps "26 / 5"]
  by (simp add: scheduleAudio_sources demo_timeline narrationNodes_cases demo_audio
      demo_background initial_audio mkScene_def beginsAt_def)

text \<open>
  C3, as stated, asks for one narration node for every entry whose interval meets
  \<open>[t0, totalDuration)\<close>. An entry whose asset has no decoded audio buffer gets none: a
  single scene of five seconds without an asset, played from 0.
\<close>

theorem scheduleAudio_no_buffer_counterexample:
  "start (getTimeline (scenes silentProps) ! 0) = 0
   \<and> end_time (getTimeline (scenes silentProps) ! 0) = 5
   \<and> totalDuration (scenes silentProps) = 5
   \<and> activeSources (scheduleAudio silentProps 0 0 initialPlayer) = []"
  by (simp add: silentProps_def getTimeline_def totalDuration_def lastEnd_def orZero_def
      mkScene_def Let_def scheduleAudio_def scheduleBackground_def scheduleItem_def audioOf_def
      initialPlayer_def)

text \<open>
  C3, amended. The nodes that \<open>scheduleAudio\<close> starts are the background node followed by
  the narration nodes of the entries in timeline order, at most one per entry. An entry
  without a decoded audio buffer gets none. An entry with a buffer and \<open>start \<ge> t0\<close>
  gets one node, starting at \<open>now + (start - t0)\<close> from sample offset 0; with
  \<open>start < t0 < end\<close> it gets one node that begins at once and reads from offset
  \<open>t0 - start\<close>; with \<open>start < t0\<close> and \<open>end \<le> t0\<close> it gets none. Assumed: the audio
  context exists.
\<close>

theorem narration_schedule:
  assumes "audioContext s"
  shows "activeSources (scheduleAudio P t0 now s)
           = activeSources s @ backgroundNodes P t0
             @ concat (map (narrationNodes P t0 now) (getTimeline (scenes P)))
         \<and> (\<forall>item \<in> set (getTimeline (scenes P)).
              (audioOf (assets P) (sid (scene item)) = None \<longrightarrow>
                 narrationNodes P t0 now item = [])
              \<and> (\<forall>b. audioOf (assets P) (sid (scene item)) = Some b \<longrightarrow>
                   (start item \<ge> t0 \<longrightarrow>
                      narrationNodes P t0 now item
                        = [\<lparr>buffer = b, loop = False, gain = 1,
                            startAt = now + (start item - t0), fromOffset = 0,
                            stopAt = Some (now + end_time item - t0)\<rparr>])
                   \<and> (start item < t0 \<and> t0 < end_time item \<longrightarrow>
                        narrationNodes P t0 now item
                          = [\<lparr>buffer = b, loop = False, gain = 1,
                              startAt = 0, fromOffset = t0 - start item,
                              stopAt = Some (now + (end_time item - t0))\<rparr>]
                        \<and> (0 \<le> now \<longrightarrow>
                             (\<forall>node \<in> set (narrationNodes P t0 now item).
                                beginsAt now node = now)))
                   \<and> (start item < t0 \<and> end_time item \<le> t0 \<longrightarrow>
                        narrationNodes P t0 now item = [])))"
proof -
  have a: "activeSources (scheduleAudio P t0 now s)
           = activeSources s @ backgroundNodes P t0
             @ concat (map (narrationNodes P t0 now) (getTimeline (scenes P)))"
    using assms by (simp add: scheduleAudio_sources)
  have b: "\<forall>item \<in> set (getTimeline (scenes P)).
              (audioOf (assets P) (sid (scene item)) = None \<longrightarrow>
                 narrationNodes P t0 now item = [])
              \<and> (\<forall>b. audioOf (assets P) (sid (scene item)) = Some b \<longrightarrow>
                   (start item \<ge> t0 \<longrightarrow>
                      narrationNodes P t0 now item
                        = [\<lparr>buffer = b, loop = False, gain = 1,
                            startAt = now + (start item - t0), fromOffset = 0,
                            stopAt = Some (now + end_time item - t0)\<rparr>])
                   \<and> (start item < t0 \<and> t0 < end_time item \<longrightarrow>
                        narrationNodes P t0 now item
                          = [\<lparr>buffer = b, loop = False, gain = 1,
                              startAt = 0, fromOffset = t0 - start item,
                              stopAt = Some (now + (end_time item - t0))\<rparr>]
                        \<and> (0 \<le> now \<longrightarrow>
                             (\<forall>node \<in> set (narrationNodes P t0 now item).
                                beginsAt now node = now)))
                   \<and> (start item < t0 \<and> end_time item \<le> t0 \<longrightarrow>
                        narrationNodes P t0 now item = []))"
    by (auto simp: narrationNodes_cases beginsAt_def)
  from a b show ?thesis by blast
qed

theorem narration_schedule_witness:
  "audioContext initialPlayer
   \<and> getTimeline (scenes demoProps) ! 1 \<in> set (getTimeline (scenes demoProps))
   \<and> audioOf (assets demoProps) (sid (scene (getTimeline (scenes demoProps) ! 1)))
       = Some \<lparr>buf_duration = 3\<rparr>
   \<and> start (getTimeline (scenes demoProps) ! 1) < 26 / 5
   \<and> 26 / 5 < end_time (getTimeline (scenes demoProps) ! 1)
   \<and> narrationNodes demoProps (26 / 5) 10 (getTimeline (scenes demoProps) ! 1)
       = [\<lparr>buffer = \<lparr>buf_duration = 3\<rparr>, loop = False, gain = 1, startAt = 0,
           fromOffset = 6 / 5, stopAt = Some (59 / 5)\<rparr>]
   \<and> narrationNodes demoProps (26 / 5) 10 (getTimeline (scenes demoProps) ! 0) = []
   \<and> narrationNodes demoProps (26 / 5) 10 (getTimeline (scenes demoProps) ! 2)
       = [\<lparr>buffer = \<lparr>buf_duration = 5\<rparr>, loop = False, gain = 1, startAt = 59 / 5,
           fromOffset = 0, stopAt = Some (84 / 5)\<rparr>]
   \<and> activeSources (scheduleAudio demoProps (26 / 5) 10 initialPlayer)
       = narrationNodes demoProps (26 / 5) 10 (getTimeline (scenes demoProps) ! 1)
         @ narrationNodes demoProps (26 / 5) 10 (getTimeline (scenes demoProps) ! 2)"
  using narration_schedule [of initialPlayer demoProps "26 / 5" 10]
  by (simp add: demo_timeline narrationNodes_cases demo_audio
      demo_background initial_audio mkScene_def)

lemma background_relative:
  "0 \<le> a \<Longrightarrow> 0 \<le> b \<Longrightarrow>
   map (relativeTo a) (backgroundNodes P t0) = map (relativeTo b) (backgroundNodes P t0)"
  by (simp add: backgroundNodes_def scheduleBackground_def push_def initialPlayer_def
      relativeTo_def beginsAt_def split: option.splits)

lemma narration_relative:
  "0 \<le> a \<Longrightarrow> 0 \<le> b \<Longrightarrow>
   map (relativeTo a) (narrationNodes P t0 a item)
     = map (relativeTo b) (narrationNodes P t0 b item)"
  by (simp add: narrationNodes_cases relativeTo_def beginsAt_def split: option.splits)

lemma timeline_relative:
  "0 \<le> a \<Longrightarrow> 0 \<le> b \<Longrightarrow>
   map (relativeTo a) (concat (map (narrationNodes P t0 a) items))
     = map (relativeTo b) (concat (map (narrationNodes P t0 b) items))"
proof (induction items)
  case Nil
  show ?case by simp
next
  case (Cons item items)
  from Cons.prems have "map (relativeTo a) (narrationNodes P t0 a item)
      = map (relativeTo b) (narrationNodes P t0 b item)"
    by (rule narration_relative)
  with Cons show ?case by simp
qed

text \<open>
  C7. Pausing at elapsed time \<open>e = (w1 - startTime) / 1000\<close> and then calling \<open>play\<close>
  schedules exactly the nodes that \<open>play\<close> schedules from a fresh, stopped player whose
  paused offset is \<open>e\<close>, the nodes of \<open>scheduleAudio\<close> at \<open>t0 = e\<close>: the same buffers,
  start times, sample offsets and stop times at the same audio-clock time, and the same
  ones relative to the audio clock when the two clocks read differently. The wall-clock
  times of the two \<open>play\<close> calls do not matter. Assumed: the audio clock is not negative.
\<close>

theorem pause_resume_schedule:
  assumes "\<not> isPlaying s0" and "activeSources s0 = []"
    and "audioContext s0 = audioContext s"
    and "pauseTime s0 = (w1 - startTime s) / 1000"
    and "0 \<le> a1" and "0 \<le> a2"
  shows "activeSources (play P w2 a1 (pause w1 s)) = activeSources (play P w3 a1 s0)
         \<and> map (relativeTo a1) (activeSources (play P w2 a1 (pause w1 s)))
             = map (relativeTo a2) (activeSources (play P w3 a2 s0))
         \<and> pauseTime (pause w1 s) = (w1 - startTime s) / 1000
         \<and> activeSources (play P w2 a1 (pause w1 s))
             = activeSources (scheduleAudio P ((w1 - startTime s) / 1000) a1 s0)"
proof -
  let ?e = "(w1 - startTime s) / 1000"
  let ?nodes = "\<lambda>a. if audioContext s then
           backgroundNodes P ?e
             @ concat (map (narrationNodes P ?e a) (getTimeline (scenes P)))
         else []"
  have paused: "pauseTime (pause w1 s) = ?e" "\<not> isPlaying (pause w1 s)"
    "activeSources (pause w1 s) = []" "audioContext (pause w1 s) = audioContext s"
    by (simp_all add: pause_def cancelAnimationFrame_def stopAudio_def Let_def)
  have resumed: "activeSources (play P w2 a1 (pause w1 s)) = ?nodes a1"
    by (simp add: play_def requestAnimationFrame_def scheduleAudio_sources paused)
  have fresh: "activeSources (play P w3 a s0) = ?nodes a" for a
    by (simp add: play_def requestAnimationFrame_def scheduleAudio_sources assms(1-4))
  have direct: "activeSources (scheduleAudio P ?e a1 s0) = ?nodes a1"
    by (simp add: scheduleAudio_sources assms(1-4))
  have rel: "map (relativeTo a1) (?nodes a1) = map (relativeTo a2) (?nodes a2)"
    using background_relative [OF assms(5,6), of P ?e]
      timeline_relative [OF assms(5,6), of P ?e "getTimeline (scenes P)"]
    by simp
  show ?thesis
    by (simp only: paused(1) resumed fresh direct rel simp_thms)
qed

theorem pause_resume_schedule_witness:
  "\<not> isPlaying (initialPlayer\<lparr>pauseTime := 26 / 5\<rparr>)
   \<and> activeSources (initialPlayer\<lparr>pauseTime := 26 / 5\<rparr>) = []
   \<and> audioContext (initialPlayer\<lparr>pauseTime := 26 / 5\<rparr>) = audioContext playingAtZero
   \<and> pauseTime (initialPlayer\<lparr>pauseTime := 26 / 5\<rparr>) = (5200 - startTime playingAtZero) / 1000
   \<and> (0::real) \<le> 10 \<and> (0::real) \<le> 3
   \<and> activeSources (play demoProps 9000 10 (pause 5200 playingAtZero))
       = [\<lparr>buffer = \<lparr>buf_duration = 3\<rparr>, loop = False, gain = 1, startAt = 0,
           fromOffset = 6 / 5, stopAt = Some (59 / 5)\<rparr>,
          \<lparr>buffer = \<lparr>buf_duration = 5\<rparr>, loop = False, gain = 1, startAt = 59 / 5,
           fromOffset = 0, stopAt = Some (84 / 5)\<rparr>]
   \<and> activeSources (play demoProps 0 10 (initialPlayer\<lparr>pauseTime := 26 / 5\<rparr>))
       = activeSources (play demoProps 9000 10 (pause 5200 playingAtZero))
   \<and> map (relativeTo 3)
         (activeSources (play demoProps 0 3 (initialPlayer\<lparr>pauseTime := 26 / 5\<rparr>)))
       = [(\<lparr>buf_duration = 3\<rparr>, False, 1, 0, 6 / 5, Some (9 / 5)),
          (\<lparr>buf_duration = 5\<rparr>, False, 1, 9 / 5, 0, Some (34 / 5))]
   \<and> map (relativeTo 10) (activeSources (play demoProps 9000 10 (pause 5200 playingAtZero)))
       = map (relativeTo 3)
           (activeSources (play demoProps 0 3 (initialPlayer\<lparr>pauseTime := 26 / 5\<rparr>)))"
  using pause_resume_schedule [where ?s0.0 = "initialPlayer\<lparr>pauseTime := 26 / 5\<rparr>"
      and s = playingAtZero and ?w1.0 = 5200 and ?a1.0 = 10 and ?a2.0 = 3 and P = demoProps
      and ?w2.0 = 9000 and ?w3.0 = 0]
  by (simp add: playingAtZero_def initialPlayer_def play_def requestAnimationFrame_def
      scheduleAudio_sources demo_timeline narrationNodes_cases demo_audio demo_background
      mkScene_def relativeTo_def beginsAt_def)

section \<open>Properties of the frame renderer\<close>

lemma findIndex_Some:
  "findIndex p xs = Some i \<Longrightarrow> i < length xs \<and> p (xs ! i)"
proof (induction xs arbitrary: i)
  case Nil
  then show ?case by simp
next
  case (Cons x xs)
  show ?case
  proof (cases "p x")
    case True
    with Cons.prems show ?thesis by simp
  next
    case False
    with Cons.prems obtain j where j: "findIndex p xs = Some j" "i = Suc j"
      by (auto simp: map_option_case split: option.splits)
    from Cons.IH[OF j(1)] j(2) show ?thesis by simp
  qed
qed

lemma two_timeline:
  "getTimeline (scenes twoProps) =
     [\<lparr>scene = mkScene 1 4 (Some Slide), start = 0, duration = 4, end_time = 4\<rparr>,
      \<lparr>scene = mkScene 2 3 (Some Zoom), start = 4, duration = 3, end_time = 7\<rparr>]"
  by (simp add: twoProps_def getTimeline_def mkScene_def Let_def)

lemma two_total: "totalDuration (scenes twoProps) = 7"
  by (simp add: totalDuration_def lastEnd_def orZero_def two_timeline)

lemma two_images:
  "readyImage (assets twoProps 1) = Some (mkImage ''one'')"
  "readyImage (assets twoProps 2) = Some (mkImage ''two'')"
  by (simp_all add: twoProps_def readyImage_def mkAsset_def mkImage_def)

lemma two_size: "width twoProps = 1280" "height twoProps = 720"
  by (simp_all add: twoProps_def)

text \<open>
  C4, as stated, composites the next image in the next scene's own transition style. The
  renderer reads the style of the active scene: with a first scene set to slide and a
  second set to zoom, the frame at 3.6 s (0.4 s before the first scene ends) holds the
  second image slid in by half the width at full opacity, not zoomed at half opacity.
\<close>

theorem transition_style_counterexample:
  "transitionType (scene (getTimeline (scenes twoProps) ! 0)) = Some Slide
   \<and> transitionType (scene (getTimeline (scenes twoProps) ! 1)) = Some Zoom
   \<and> paint twoProps (18 / 5)
       = [FillRect ''#000'' 0 0 1280 720,
          DrawImage (mkImage ''one'') 1 (- (432 / 5)) (- (243 / 5)) (7264 / 5) (4086 / 5),
          Save,
          DrawImage (mkImage ''two'') 1 640 0 1280 720,
          Restore,
          FillRect ''vignette'' 0 0 1280 720]
   \<and> transitionOps twoProps Slide (mkImage ''two'') (1 / 2)
       = [DrawImage (mkImage ''two'') 1 640 0 1280 720]
   \<and> transitionOps twoProps Zoom (mkImage ''two'') (1 / 2)
       = [DrawImage (mkImage ''two'') (1 / 2) 64 36 1152 648]"
  by (simp add: paint_def two_timeline two_total two_images two_size activeIndex_def
      sceneLayer_def transitionLayer_def hookBar_def drawScene_def transDur_def mkScene_def
      Let_def)

text \<open>
  C4, amended. A frame is the black background, the active scene's image, the transition
  layer, the vignette and the hook bar. When the clamped time is less than \<open>transDur\<close>
  (0.8 s) before the end of the active entry, a next entry exists and its image is ready,
  the transition layer draws the next image once, in the transition style of the active
  (outgoing) scene, fade when it has none, with progress
  \<open>q = 1 - (end - clampedTime) / transDur\<close>, which lies strictly between 0 and 1 when the
  active entry contains the clamped time. Outside that window, or without a next entry or
  a ready next image, the layer is empty. Fade and dissolve draw at opacity \<open>q\<close>; slide
  draws at full opacity shifted right by \<open>width * (1 - q)\<close>; zoom draws at opacity \<open>q\<close>
  scaled by \<open>0.8 + 0.2 q\<close> about the centre; blur draws at opacity \<open>q\<close> under a blur of
  \<open>20 (1 - q)\<close> pixels.
\<close>

theorem transition_style:
  assumes tl: "timeline = getTimeline (scenes P)" and ne: "timeline \<noteq> []"
    and ct: "clampedTime = min time (totalDuration (scenes P) - 1 / 1000)"
    and idx: "currentIdx = (case activeIndex timeline clampedTime of
                              None \<Rightarrow> length timeline - 1 | Some i \<Rightarrow> i)"
    and cur: "currentScene = timeline ! currentIdx"
    and q: "q = 1 - (end_time currentScene - clampedTime) / transDur"
    and sty: "style = (case transitionType (scene currentScene) of
                         None \<Rightarrow> Fade | Some ty \<Rightarrow> ty)"
    and nxt: "next = readyImage (assets P (sid (scene (timeline ! Suc currentIdx))))"
  shows "paint P time
           = [FillRect ''#000'' 0 0 (width P) (height P)]
             @ sceneLayer P currentScene clampedTime
             @ transitionLayer P timeline currentIdx clampedTime
             @ [FillRect ''vignette'' 0 0 (width P) (height P)]
             @ hookBar P currentScene time
         \<and> (end_time currentScene - clampedTime < transDur \<and> Suc currentIdx < length timeline
              \<longrightarrow> (\<forall>img. next = Some img \<longrightarrow>
                      transitionLayer P timeline currentIdx clampedTime
                        = [Save] @ transitionOps P style img q @ [Restore])
                  \<and> (next = None \<longrightarrow>
                       transitionLayer P timeline currentIdx clampedTime = []))
         \<and> (\<not> end_time currentScene - clampedTime < transDur
              \<or> \<not> Suc currentIdx < length timeline
              \<longrightarrow> transitionLayer P timeline currentIdx clampedTime = [])
         \<and> (activeIndex timeline clampedTime = Some currentIdx
              \<and> end_time currentScene - clampedTime < transDur \<longrightarrow> 0 < q \<and> q < 1)
         \<and> transitionOps P Fade img q = [DrawImage img q 0 0 (width P) (height P)]
         \<and> transitionOps P Dissolve img q
             = [SetComposite ''source-over'', DrawImage img q 0 0 (width P) (height P)]
         \<and> transitionOps P Slide img q
             = [DrawImage img 1 (width P * (1 - q)) 0 (width P) (height P)]
         \<and> transitionOps P Zoom img q
             = [DrawImage img q
                  ((width P - width P * (8 / 10 + q * (2 / 10))) / 2)
                  ((height P - height P * (8 / 10 + q * (2 / 10))) / 2)
                  (width P * (8 / 10 + q * (2 / 10)))
                  (height P * (8 / 10 + q * (2 / 10)))]
         \<and> transitionOps P Blur img q
             = [SetFilterBlur ((1 - q) * 20), DrawImage img q 0 0 (width P) (height P)]"
proof -
  have a: "paint P time
           = [FillRect ''#000'' 0 0 (width P) (height P)]
             @ sceneLayer P currentScene clampedTime
             @ transitionLayer P timeline currentIdx clampedTime
             @ [FillRect ''vignette'' 0 0 (width P) (height P)]
             @ hookBar P currentScene time"
    using ne by (simp add: paint_def Let_def tl [symmetric] ct [symmetric] idx [symmetric]
        cur [symmetric])
  have b: "end_time currentScene - clampedTime < transDur \<and> Suc currentIdx < length timeline
              \<longrightarrow> (\<forall>img. next = Some img \<longrightarrow>
                      transitionLayer P timeline currentIdx clampedTime
                        = [Save] @ transitionOps P style img q @ [Restore])
                  \<and> (next = None \<longrightarrow>
                       transitionLayer P timeline currentIdx clampedTime = [])"
    by (auto simp: transitionLayer_def Let_def cur q sty nxt)
  have c: "\<not> end_time currentScene - clampedTime < transDur
              \<or> \<not> Suc currentIdx < length timeline
              \<longrightarrow> transitionLayer P timeline currentIdx clampedTime = []"
    by (auto simp: transitionLayer_def Let_def cur)
  have d: "activeIndex timeline clampedTime = Some currentIdx
              \<and> end_time currentScene - clampedTime < transDur \<longrightarrow> 0 < q \<and> q < 1"
  proof (intro impI, elim conjE)
    assume f: "activeIndex timeline clampedTime = Some currentIdx"
      and w: "end_time currentScene - clampedTime < transDur"
    from findIndex_Some[OF f[unfolded activeIndex_def]] cur
    have "clampedTime < end_time currentScene" by simp
    with w show "0 < q \<and> q < 1" by (simp add: q transDur_def)
  qed
  have e: "transitionOps P Fade img q = [DrawImage img q 0 0 (width P) (height P)]"
    "transitionOps P Dissolve img q
       = [SetComposite ''source-over'', DrawImage img q 0 0 (width P) (height P)]"
    "transitionOps P Slide img q
       = [DrawImage img 1 (width P * (1 - q)) 0 (width P) (height P)]"
    "transitionOps P Zoom img q
       = [DrawImage img q
            ((width P - width P * (8 / 10 + q * (2 / 10))) / 2)
            ((height P - height P * (8 / 10 + q * (2 / 10))) / 2)
            (width P * (8 / 10 + q * (2 / 10)))
            (height P * (8 / 10 + q * (2 / 10)))]"
    "transitionOps P Blur img q
       = [SetFilterBlur ((1 - q) * 20), DrawImage img q 0 0 (width P) (height P)]"
    by (simp_all add: drawScene_def Let_def)
  from a b c d e show ?thesis by blast
qed

theorem transition_style_witness:
  "getTimeline (scenes twoProps) \<noteq> []
   \<and> (18 / 5 :: real) = min (18 / 5) (totalDuration (scenes twoProps) - 1 / 1000)
   \<and> activeIndex (getTimeline (scenes twoProps)) (18 / 5) = Some 0
   \<and> transitionType (scene (getTimeline (scenes twoProps) ! 0)) = Some Slide
   \<and> readyImage (assets twoProps (sid (scene (getTimeline (scenes twoProps) ! Suc 0))))
       = Some (mkImage ''two'')
   \<and> end_time (getTimeline (scenes twoProps) ! 0) - 18 / 5 < transDur
   \<and> Suc 0 < length (getTimeline (scenes twoProps))
   \<and> (1 / 2 :: real) = 1 - (end_time (getTimeline (scenes twoProps) ! 0) - 18 / 5) / transDur
   \<and> transitionLayer twoProps (getTimeline (scenes twoProps)) 0 (18 / 5)
       = [Save] @ transitionOps twoProps Slide (mkImage ''two'') (1 / 2) @ [Restore]
   \<and> transitionLayer twoProps (getTimeline (scenes twoProps)) 0 3 = []"
  using transition_style [of "getTimeline (scenes twoProps)" twoProps "18 / 5" "18 / 5" 0
      "getTimeline (scenes twoProps) ! 0" "1 / 2" Slide "Some (mkImage ''two'')"
      "mkImage ''two''"]
    transition_style [of "getTimeline (scenes twoProps)" twoProps 3 3 0
      "getTimeline (scenes twoProps) ! 0" "- (1 / 4)" Slide "Some (mkImage ''two'')"
      "mkImage ''two''"]
  by (simp add: two_timeline two_total two_images two_size activeIndex_def transDur_def
      mkScene_def transitionLayer_def drawScene_def Let_def)

section \<open>Properties of the playback controller\<close>

text \<open>
  C9 asks that a second \<open>pause\<close>, with no \<open>play\<close> in between, leaves the paused offset
  as the first call set it. \<open>pause\<close> has no guard and recomputes the offset from the wall
  clock: a second call adds the time spent paused. Pausing at 5200 ms and again at 8200 ms
  moves the offset from 5.2 s to 8.2 s. Each call does leave the player stopped, with no
  active node and no pending frame.
\<close>

theorem pause_twice_moves_offset:
  "pauseTime (pause w2 (pause w1 s)) = pauseTime (pause w1 s) + (w2 - w1) / 1000
   \<and> activeSources (pause w1 s) = [] \<and> \<not> isPlaying (pause w1 s)
   \<and> \<not> frameRequested (pause w1 s)
   \<and> pauseTime (pause 5200 playingAtZero) = 26 / 5
   \<and> pauseTime (pause 8200 (pause 5200 playingAtZero)) = 41 / 5"
  by (simp add: pause_def cancelAnimationFrame_def stopAudio_def Let_def playingAtZero_def
      initialPlayer_def diff_divide_distrib)

lemma total_empty: "totalDuration [] = 0"
  by (simp add: totalDuration_def lastEnd_def orZero_def getTimeline_def)

lemma handleStop_idle:
  "\<not> isRecording s \<Longrightarrow>
   handleStop s = Inr (s\<lparr>isPlaying := False, activeSources := [], frameRequested := False\<rparr>)"
  by (simp add: handleStop_def Let_def cancelAnimationFrame_def stopAudio_def)

lemma handleStop_live:
  "isRecording s \<Longrightarrow> mediaRecorder s = Some r \<Longrightarrow> rstate r \<noteq> Inactive \<Longrightarrow>
   handleStop s =
     Inr (s\<lparr>isPlaying := False, activeSources := [], frameRequested := False,
            mediaRecorder := Some (r\<lparr>rstate := Inactive\<rparr>), isRecording := False,
            events := events s @ [RecorderStop]\<rparr>)"
  by (simp add: handleStop_def Let_def cancelAnimationFrame_def stopAudio_def emit_def)

text \<open>
  C10. On an empty list of scenes, \<open>play\<close> from a player that is neither playing nor
  recording, followed by the first frame callback, does not throw: it paints only the
  cleared black frame (when there is a canvas), fires the end-of-playback callback once,
  emits no progress notification, and leaves the player stopped, with no active node,
  no pending frame and no new timer. Assumed: the paused offset is not negative and the
  wall clock does not run backwards between the two calls.
\<close>

theorem play_empty_timeline:
  assumes emp: "scenes P = []" and idle: "\<not> isPlaying s" "\<not> isRecording s"
    and off: "0 \<le> pauseTime s" and clock: "now \<le> now'"
  shows "\<exists>s'. tick P now' (play P now currentTime s) = Inr s'
           \<and> events s'
               = events s
                 @ (if canvas s then [Frame [FillRect ''#000'' 0 0 (width P) (height P)]] else [])
                 @ [PlaybackEnd]
           \<and> \<not> isPlaying s' \<and> \<not> isRecording s' \<and> activeSources s' = []
           \<and> \<not> frameRequested s' \<and> timers s' = timers s"
proof -
  define s1 where "s1 = (play P now currentTime s)\<lparr>frameRequested := False\<rparr>"
  have p: "isPlaying s1" "\<not> isRecording s1" "startTime s1 = now - pauseTime s * 1000"
    "events s1 = events s" "canvas s1 = canvas s" "timers s1 = timers s"
    using idle
    by (simp_all add: s1_def play_def requestAnimationFrame_def scheduleAudio_def Let_def emp
        getTimeline_def scheduleBackground_def push_def split: option.splits)
  have el: "(now' - startTime s1) / 1000 \<ge> totalDuration (scenes P)"
    using off clock by (simp add: p emp total_empty)
  have pt: "paint P t = [FillRect ''#000'' 0 0 (width P) (height P)]" for t
    by (simp add: paint_def emp getTimeline_def)
  let ?s2 = "renderCanvas P (totalDuration (scenes P) - 1 / 1000) s1"
  have r: "isPlaying ?s2" "\<not> isRecording ?s2" "timers ?s2 = timers s"
    "events ?s2 = events s
       @ (if canvas s then [Frame [FillRect ''#000'' 0 0 (width P) (height P)]] else [])"
    by (simp_all add: renderCanvas_def emit_def p pt)
  have t: "tick P now' (play P now currentTime s)
        = Inr (onPlaybackEnd
                 (?s2\<lparr>isPlaying := False, activeSources := [], frameRequested := False\<rparr>))"
    using el p(1) r(2)
    by (simp add: tick_def drawFrame_def s1_def [symmetric] Let_def handleStop_idle)
  show ?thesis
    by (simp add: t onPlaybackEnd_def emit_def r)
qed

theorem play_empty_timeline_witness:
  "scenes emptyProps = [] \<and> \<not> isPlaying initialPlayer \<and> \<not> isRecording initialPlayer
   \<and> 0 \<le> pauseTime initialPlayer \<and> (1000::real) \<le> 1016
   \<and> tick emptyProps 1016 (play emptyProps 1000 0 initialPlayer)
       = Inr (initialPlayer\<lparr>startTime := 1000,
               events := [Frame [FillRect ''#000'' 0 0 1280 720], PlaybackEnd]\<rparr>)"
  using play_empty_timeline [of emptyProps initialPlayer 1000 1016 0]
  by (simp add: emptyProps_def initialPlayer_def tick_def drawFrame_def play_def
      requestAnimationFrame_def scheduleAudio_def scheduleBackground_def getTimeline_def
      total_empty renderCanvas_def paint_def emit_def handleStop_def cancelAnimationFrame_def
      stopAudio_def onPlaybackEnd_def Let_def)

section \<open>Properties of the capture pipeline\<close>

lemma allReady_iff:
  "allReady m es \<longleftrightarrow>
     (\<forall>e \<in> set es. \<exists>a img. m (sid (scene e)) = Some a \<and> imageElement a = Some img
        \<and> complete img \<and> naturalWidth img \<noteq> 0)"
  by (induction es) (auto split: option.splits)

lemma validateAssets_iff:
  "validateAssets P \<longleftrightarrow>
     (\<forall>sc \<in> set (scenes P). \<exists>a img. assets P (sid sc) = Some a \<and> imageElement a = Some img
        \<and> complete img \<and> naturalWidth img \<noteq> 0)"
proof -
  have "set (scenes P) = scene ` set (getTimeline (scenes P))"
    using getTimeline_scenes [of "scenes P"] by (metis set_map)
  then show ?thesis by (simp add: validateAssets_def allReady_iff)
qed

text \<open>
  C6, as stated, refuses to record whenever some scene lacks a completed-status asset.
  \<open>validateAssets\<close> reads the image only: an asset that is being regenerated (status
  loading) and still holds its decoded image passes, and the recorder is started.
\<close>

theorem record_ignores_status_counterexample:
  "assets regenProps 1 = Some (mkAsset 1 None (Some (mkImage ''old'')) Loading)
   \<and> status (mkAsset 1 None (Some (mkImage ''old'')) Loading) \<noteq> Completed
   \<and> record_video regenProps webmHost initialPlayer
       = Inr (initialPlayer
               \<lparr>mediaRecorder := Some \<lparr>rstate = Recording, mimeType = Some ''video/webm''\<rparr>,
                isRecording := True, timers := [PreRoll],
                events := [RecorderStart, Frame (paint regenProps 0)]\<rparr>)"
  by (simp add: regenProps_def webmHost_def initialPlayer_def record_video_def handleStop_def
      cancelAnimationFrame_def stopAudio_def totalDuration_def lastEnd_def orZero_def
      getTimeline_def mkScene_def mkAsset_def mkImage_def validateAssets_def
      getSupportedMimeType_def renderCanvas_def emit_def setTimeout_def Let_def)

text \<open>
  C6, amended. When the list of scenes is empty, or some scene has no asset whose image
  element is present, complete and of non-zero natural width (the status of the asset is
  not read), \<open>record\<close> refuses: it stops what was running, raises an alert, fires the
  end-of-playback callback, starts no recorder and leaves the player neither playing nor
  recording, with no active node, no pending frame and no new timer. Assumed: when the
  recording flag is set, the recorder is not inactive.
\<close>

theorem record_refused:
  assumes live: "isRecording s \<longrightarrow> (\<exists>r. mediaRecorder s = Some r \<and> rstate r \<noteq> Inactive)"
    and bad: "scenes P = []
              \<or> (\<exists>sc \<in> set (scenes P). \<forall>a img. assets P (sid sc) = Some a \<longrightarrow>
                    imageElement a = Some img \<longrightarrow> \<not> complete img \<or> naturalWidth img = 0)"
  shows "\<exists>s' msg. record_video P H s = Inr s'
           \<and> events s'
               = events s @ (if isRecording s then [RecorderStop] else [])
                 @ [Alert msg, PlaybackEnd]
           \<and> \<not> isPlaying s' \<and> \<not> isRecording s' \<and> activeSources s' = []
           \<and> \<not> frameRequested s' \<and> timers s' = timers s
           \<and> (\<forall>r. mediaRecorder s' = Some r \<longrightarrow> rstate r = Inactive \<or> mediaRecorder s = Some r)"
proof -
  have refuse: "totalDuration (scenes P) = 0 \<or> \<not> validateAssets P"
    using bad by (auto simp: total_empty validateAssets_iff)
  obtain s1 where s1: "handleStop s = Inr s1"
    and e1: "events s1 = events s @ (if isRecording s then [RecorderStop] else [])"
    and q1: "\<not> isPlaying s1" "\<not> isRecording s1" "activeSources s1 = []"
      "\<not> frameRequested s1" "timers s1 = timers s"
    and m1: "\<forall>r. mediaRecorder s1 = Some r \<longrightarrow> rstate r = Inactive \<or> mediaRecorder s = Some r"
  proof (cases "isRecording s")
    case False
    then show ?thesis using that by (simp add: handleStop_idle)
  next
    case True
    with live obtain r where "mediaRecorder s = Some r" "rstate r \<noteq> Inactive" by blast
    with True show ?thesis using that by (simp add: handleStop_live)
  qed
  define msg where
    "msg = (if totalDuration (scenes P) = 0 then ''Timeline empty.'' else ''Wait for all assets.'')"
  have "record_video P H s = Inr (onPlaybackEnd (alert msg s1))"
    using refuse by (auto simp: record_video_def s1 msg_def)
  then show ?thesis
    using e1 q1 m1 by (simp add: onPlaybackEnd_def alert_def emit_def)
qed

theorem record_refused_witness:
  "isRecording recordingPlayer
   \<and> mediaRecorder recordingPlayer = Some \<lparr>rstate = Recording, mimeType = Some ''video/webm''\<rparr>
   \<and> rstate \<lparr>rstate = Recording, mimeType = Some ''video/webm''\<rparr> \<noteq> Inactive
   \<and> mkScene 1 5 None \<in> set (scenes silentProps)
   \<and> assets silentProps (sid (mkScene 1 5 None)) = None
   \<and> record_video silentProps webmHost recordingPlayer
       = Inr (initialPlayer
               \<lparr>mediaRecorder := Some \<lparr>rstate = Inactive, mimeType = Some ''video/webm''\<rparr>,
                events := [RecorderStop, Alert ''Wait for all assets.'', PlaybackEnd]\<rparr>)"
  using record_refused [of recordingPlayer silentProps webmHost]
  by (simp add: recordingPlayer_def silentProps_def webmHost_def initialPlayer_def
      record_video_def handleStop_def cancelAnimationFrame_def stopAudio_def totalDuration_def
      lastEnd_def orZero_def getTimeline_def mkScene_def validateAssets_def emit_def
      onPlaybackEnd_def alert_def Let_def)

text \<open>
  The proviso on the recorder is needed. When \<open>start\<close> throws, \<open>record\<close> has already
  set the recording flag and the recorder stays inactive; \<open>handleStop\<close> then never clears
  the flag, and a later refused \<open>record\<close> leaves it set.
\<close>

lemma record_after_failed_start:
  "record_video demoProps (webmHost\<lparr>encoderFault := StartThrows\<rparr>) initialPlayer
     = Inr stuckPlayer
   \<and> record_video silentProps webmHost stuckPlayer
       = Inr (stuckPlayer\<lparr>events := [PlaybackEnd, Alert ''Wait for all assets.'', PlaybackEnd]\<rparr>)
   \<and> isRecording stuckPlayer"
  by (simp add: stuckPlayer_def demoProps_def demoScenes_def demoAssets_def silentProps_def
      webmHost_def initialPlayer_def record_video_def handleStop_def cancelAnimationFrame_def
      stopAudio_def totalDuration_def lastEnd_def orZero_def getTimeline_def mkScene_def
      mkAsset_def mkImage_def validateAssets_def getSupportedMimeType_def emit_def
      onPlaybackEnd_def alert_def Let_def)

text \<open>
  C8 asks that a recording of zero bytes is treated as a failure and not offered as a
  download. The \<open>stop\<close> handler of the current player builds the blob and clicks the
  download link without looking at its size; the handler of the earlier snapshot returns
  before the download when the blob is empty.
\<close>

theorem empty_recording_downloaded:
  "recorder_onstop (Some m) (s\<lparr>chunks := []\<rparr>)
     = Inr (emit (Download (if str_includes m ''mp4'' then ''mp4'' else ''webm'') 0)
              (s\<lparr>chunks := []\<rparr>))
   \<and> recorder_onstop_v1 m (s\<lparr>chunks := []\<rparr>) = s\<lparr>chunks := []\<rparr>
   \<and> ondataavailable 0 s = s
   \<and> recorder_onstop (Some ''video/webm'') initialPlayer
       = Inr (initialPlayer\<lparr>events := [Download ''webm'' 0]\<rparr>)
   \<and> recorder_onstop_v1 ''video/webm'' initialPlayer = initialPlayer"
  by (simp add: recorder_onstop_def recorder_onstop_v1_def ondataavailable_def emit_def
      initialPlayer_def)

end
